theory Spec2Isabelle
  imports Main
begin

section \<open>direct\_send: data model\<close>

text \<open>
  The development embeds \<^verbatim>\<open>direct_send\<close> of \<^verbatim>\<open>src/jmclient/example.py\<close>.
  Python integers are \<open>int\<close>, strings and byte strings are \<open>string\<close>, a dictionary
  that the code iterates over is an association list in insertion order, exceptions
  and early returns are values of \<open>outcome\<close>.  Calls of \<^verbatim>\<open>log.info\<close>,
  \<^verbatim>\<open>log.error\<close>, \<^verbatim>\<open>print\<close> and of the info and error callbacks only emit text;
  they are left out.  The \<^verbatim>\<open>isinstance\<close> assertions on \<^verbatim>\<open>dest_and_amounts\<close>,
  \<^verbatim>\<open>mixdepth\<close> and \<^verbatim>\<open>amount\<close> hold by typing.
\<close>

type_synonym address = string
type_synonym outpoint = "string \<times> nat"
type_synonym path = "int list"

text \<open>One value of the dictionary returned by the wallet's utxo queries.\<close>

record utxo =
  utxo_value :: int
  utxo_script :: string

type_synonym utxos = "(outpoint \<times> utxo) list"

text \<open>One element of \<^verbatim>\<open>outs\<close>: \<^verbatim>\<open>{"address": ..., "value": ...}\<close>.\<close>

record out =
  out_address :: address
  out_value :: int

record txin =
  prevout :: outpoint
  nSequence :: int

record tx =
  vin :: "txin list"
  vout :: "out list"
  version :: int
  locktime :: int

text \<open>
  \<^verbatim>\<open>estimate_tx_fee\<close> takes its \<^verbatim>\<open>txtype\<close> and \<^verbatim>\<open>outtype\<close> arguments
  either as one value or as a list.
\<close>

datatype 'a one_or_list = One 'a | Listed "'a list"

datatype pyexn = AssertionError | KeyError | IndexError | UnboundLocalError

datatype retval = RNone | RFalse | RTxid string | RTx tx | RPsbt string

datatype outcome = Returned retval | Raised pyexn

text \<open>
  The calls of collaborators that select or fetch coins, build, sign, ask for
  confirmation, label or broadcast, in the order in which they are made.  A
  confirmation event carries the answer that came back.
\<close>

datatype event =
    EvGetUtxosByMixdepth
  | EvSelectUtxos int int
  | EvGetInternalAddr int
  | EvMakeShuffledTx "outpoint list" "out list" int int
  | EvSignPsbt
  | EvSignTx
  | EvPrompt bool
  | EvAcceptCallback address int int bool
  | EvSetAddressLabel address string
  | EvPushtx tx

text \<open>
  The collaborators, none of which is defined in the source file: the functions
  imported by the module, the methods of \<^verbatim>\<open>wallet_service\<close> and the blockchain
  interface.  \<open>wallet_is_BaseWallet\<close> and \<open>wallet_is_FidelityBondMixin\<close> are the
  two \<^verbatim>\<open>isinstance\<close> tests on \<^verbatim>\<open>wallet_service.wallet\<close>;
  \<open>get_utxos_by_mixdepth\<close> is the dictionary the method returns;
  \<open>sign_tx\<close> returns the transaction it signed in place as a third component;
  \<open>sign_psbt\<close> returns the serialized PSBT and the error message, if any.
\<close>

record collab =
  validate_address :: "address \<Rightarrow> bool"
  is_burn_destination :: "address \<Rightarrow> bool"
  wallet_is_BaseWallet :: bool
  wallet_is_FidelityBondMixin :: bool
  FIDELITY_BOND_MIXDEPTH :: int
  get_outtype :: "address \<Rightarrow> string option"
  get_txtype :: string
  get_utxos_by_mixdepth :: "int \<Rightarrow> utxos option"
  select_utxos :: "int \<Rightarrow> int \<Rightarrow> utxos"
  get_utxo_scripts :: "utxos \<Rightarrow> string list"
  estimate_tx_fee :: "nat \<Rightarrow> nat \<Rightarrow> string one_or_list \<Rightarrow> string option one_or_list \<Rightarrow> int"
  get_internal_addr :: "int \<Rightarrow> address"
  compute_tx_locktime :: int
  script_to_path :: "string \<Rightarrow> path"
  is_timelocked_path :: "path \<Rightarrow> bool"
  make_shuffled_tx :: "outpoint list \<Rightarrow> out list \<Rightarrow> int \<Rightarrow> int \<Rightarrow> tx"
  create_psbt_from_tx :: "tx \<Rightarrow> (int \<times> string) list \<Rightarrow> string"
  sign_psbt :: "string \<Rightarrow> string \<times> string option"
  sign_tx :: "tx \<Rightarrow> (nat \<times> string \<times> int) list \<Rightarrow> bool \<times> string \<times> tx"
  human_readable_transaction :: "tx \<Rightarrow> string"
  cli_prompt_user_yesno :: "string \<Rightarrow> bool"
  wallet_knows_address :: "address \<Rightarrow> bool"
  pushtx :: "tx \<Rightarrow> bool"
  GetTxid :: "tx \<Rightarrow> string"

text \<open>The parameters of \<^verbatim>\<open>direct_send\<close> after \<^verbatim>\<open>wallet_service\<close>.\<close>

record args =
  mixdepth :: int
  dest_and_amounts :: "(address \<times> int) list"
  answeryes :: bool
  accept_callback :: "(string \<Rightarrow> address \<Rightarrow> int \<Rightarrow> int \<Rightarrow> string option \<Rightarrow> bool) option"
  return_transaction :: bool
  with_final_psbt :: bool
  optin_rbf :: bool
  custom_change_addr :: "address option"
  change_label :: "string option"

text \<open>What the call changes outside itself: the calls made, and the wallet's labels.\<close>

record wstate =
  calls :: "event list"
  address_labels :: "address \<Rightarrow> string option"

definition log_call :: "event \<Rightarrow> wstate \<Rightarrow> wstate" where
  "log_call ev s = s\<lparr>calls := calls s @ [ev]\<rparr>"

text \<open>Python's truth value of an \<^verbatim>\<open>Optional[str]\<close>.\<close>

definition truthy :: "string option \<Rightarrow> bool" where
  "truthy x = (case x of None \<Rightarrow> False | Some s \<Rightarrow> s \<noteq> [])"

section \<open>Sanity checks and the loop over the targets\<close>

text \<open>The assertions of lines 45 to 50 that typing does not settle.\<close>

definition sanity_checks :: "collab \<Rightarrow> args \<Rightarrow> bool" where
  "sanity_checks w a =
     (length (dest_and_amounts a) > 0
      \<and> (case custom_change_addr a of None \<Rightarrow> True | Some c \<Rightarrow> validate_address w c)
      \<and> mixdepth a \<ge> 0
      \<and> wallet_is_BaseWallet w)"

text \<open>
  The local variables the loop of lines 52 to 87 leaves behind.  \<open>l_target\<close> is
  the last pair the loop bound to \<^verbatim>\<open>destination\<close> and \<^verbatim>\<open>amount\<close>
  (\<open>None\<close> before the first round).
\<close>

record locals =
  is_sweep :: bool
  outtypes :: "string option list"
  total_outputs_val :: int
  l_target :: "(address \<times> int) option"

definition locals0 :: locals where
  "locals0 = \<lparr>is_sweep = False, outtypes = [], total_outputs_val = 0, l_target = None\<rparr>"

fun check_targets :: "collab \<Rightarrow> args \<Rightarrow> (address \<times> int) list \<Rightarrow> locals \<Rightarrow> outcome + locals" where
  "check_targets w a [] l = Inr l"
| "check_targets w a ((destination, amount) # rest) l =
     (if \<not> (validate_address w destination \<or> is_burn_destination w destination)
        then Inl (Raised AssertionError)
      else if amount = 0 \<and> \<not> (custom_change_addr a = None \<and> length (dest_and_amounts a) = 1)
        then Inl (Raised AssertionError)
      else if \<not> amount \<ge> 0
        then Inl (Raised AssertionError)
      else if is_burn_destination w destination \<and> \<not> wallet_is_FidelityBondMixin w
        then Inl (Returned RNone)
      else if is_burn_destination w destination \<and> answeryes a
        then Inl (Returned RNone)
      else if is_burn_destination w destination \<and> mixdepth a \<noteq> FIDELITY_BOND_MIXDEPTH w
        then Inl (Returned RNone)
      else if is_burn_destination w destination \<and> amount \<noteq> 0
        then Inl (Returned RNone)
      else check_targets w a rest
             \<lparr>is_sweep = (is_sweep l \<or> amount = 0),
              outtypes = outtypes l @ [get_outtype w destination],
              total_outputs_val = total_outputs_val l + amount,
              l_target = Some (destination, amount)\<rparr>)"

section \<open>Planning the outputs\<close>

text \<open>
  What lines 91 to 144 leave behind for the rest of the function.
  \<open>p_change\<close> is \<^verbatim>\<open>change_addr\<close> and \<^verbatim>\<open>changeval\<close>, which only the payment
  branch binds.
\<close>

record plan =
  p_is_sweep :: bool
  p_utxos :: utxos
  p_outs :: "out list"
  p_fee_est :: int
  p_total_inputs_val :: int
  p_total_outputs_val :: int
  p_destination :: address
  p_amount :: int
  p_change :: "(address \<times> int) option"

definition total_value :: "utxos \<Rightarrow> int" where
  "total_value us = sum_list (map (\<lambda>(u, va). utxo_value va) us)"

text \<open>Lines 92 to 106.\<close>

definition plan_sweep :: "collab \<Rightarrow> args \<Rightarrow> locals \<Rightarrow> wstate \<Rightarrow> (outcome + plan) \<times> wstate" where
  "plan_sweep w a l s =
     (case dest_and_amounts a of
        [] \<Rightarrow> (Inl (Raised IndexError), s)
      | (destination, amount) # _ \<Rightarrow>
          let s1 = log_call EvGetUtxosByMixdepth s in
          (case get_utxos_by_mixdepth w (mixdepth a) of
             None \<Rightarrow> (Inl (Raised KeyError), s1)
           | Some utxos \<Rightarrow>
               if utxos = [] then (Inl (Returned RNone), s1)
               else
                 (case outtypes l of
                    [] \<Rightarrow> (Inl (Raised IndexError), s1)
                  | outtype0 # _ \<Rightarrow>
                      let total_inputs_val = total_value utxos;
                          script_types = get_utxo_scripts w utxos;
                          fee_est = estimate_tx_fee w (length utxos) 1
                                      (Listed script_types) (One outtype0)
                      in (Inr \<lparr>p_is_sweep = True, p_utxos = utxos,
                                p_outs = [\<lparr>out_address = destination,
                                           out_value = total_inputs_val - fee_est\<rparr>],
                                p_fee_est = fee_est,
                                p_total_inputs_val = total_inputs_val,
                                p_total_outputs_val = total_outputs_val l,
                                p_destination = destination, p_amount = amount,
                                p_change = None\<rparr>, s1))))"

text \<open>
  Lines 108 to 144.  \<^verbatim>\<open>destination\<close> and \<^verbatim>\<open>amount\<close> are still the ones of the
  last target of the loop; \<^verbatim>\<open>select_utxos\<close> is called with that \<^verbatim>\<open>amount\<close>.
\<close>

definition plan_payment :: "collab \<Rightarrow> args \<Rightarrow> locals \<Rightarrow> wstate \<Rightarrow> (outcome + plan) \<times> wstate" where
  "plan_payment w a l s =
     (let txtype = get_txtype w;
          change_type =
            (if truthy (custom_change_addr a)
             then (case get_outtype w (the (custom_change_addr a)) of
                     None \<Rightarrow> txtype | Some t \<Rightarrow> t)
             else txtype)
      in case outtypes l of
           [] \<Rightarrow> (Inl (Raised IndexError), s)
         | outtype0 # others \<Rightarrow>
             (case l_target l of
                None \<Rightarrow> (Inl (Raised UnboundLocalError), s)
              | Some (destination, amount) \<Rightarrow>
                  let outtypes1 = (if outtype0 = None then Some change_type else outtype0) # others;
                      outtypes2 = outtypes1 @ [Some change_type];
                      initial_fee_est = estimate_tx_fee w 8 (length (dest_and_amounts a) + 1)
                                          (One txtype) (Listed outtypes2);
                      s1 = log_call (EvSelectUtxos (mixdepth a) (amount + initial_fee_est)) s;
                      utxos = select_utxos w (mixdepth a) (amount + initial_fee_est);
                      script_types = get_utxo_scripts w utxos;
                      fee_est = (if length utxos < 8
                                 then estimate_tx_fee w (length utxos)
                                        (length (dest_and_amounts a) + 1)
                                        (Listed script_types) (Listed outtypes2)
                                 else initial_fee_est);
                      total_inputs_val = total_value utxos;
                      changeval = total_inputs_val - fee_est - total_outputs_val l;
                      outs = map (\<lambda>out. \<lparr>out_address = fst out, out_value = snd out\<rparr>)
                               (dest_and_amounts a);
                      s2 = (if custom_change_addr a = None
                            then log_call (EvGetInternalAddr (mixdepth a)) s1 else s1);
                      change_addr = (case custom_change_addr a of
                                       None \<Rightarrow> get_internal_addr w (mixdepth a)
                                     | Some c \<Rightarrow> c)
                  in (Inr \<lparr>p_is_sweep = False, p_utxos = utxos,
                            p_outs = outs @ [\<lparr>out_address = change_addr, out_value = changeval\<rparr>],
                            p_fee_est = fee_est,
                            p_total_inputs_val = total_inputs_val,
                            p_total_outputs_val = total_outputs_val l,
                            p_destination = destination, p_amount = amount,
                            p_change = Some (change_addr, changeval)\<rparr>, s2)))"

text \<open>Lines 40 to 144: the checks, the loop and the branch on \<^verbatim>\<open>is_sweep\<close>.\<close>

definition direct_send_plan :: "collab \<Rightarrow> args \<Rightarrow> wstate \<Rightarrow> (outcome + plan) \<times> wstate" where
  "direct_send_plan w a s =
     (if \<not> sanity_checks w a then (Inl (Raised AssertionError), s)
      else case check_targets w a (dest_and_amounts a) locals0 of
             Inl oc \<Rightarrow> (Inl oc, s)
           | Inr l \<Rightarrow> if is_sweep l then plan_sweep w a l s else plan_payment w a l s)"

section \<open>Locktime\<close>

text \<open>
  The loop of lines 150 to 155.  \<^verbatim>\<open>path[-1]\<close> raises \<^verbatim>\<open>IndexError\<close> on an
  empty path.
\<close>

fun locktime_loop :: "collab \<Rightarrow> utxos \<Rightarrow> int \<Rightarrow> pyexn + int" where
  "locktime_loop w [] tx_locktime = Inr tx_locktime"
| "locktime_loop w ((outpoint, utxo) # rest) tx_locktime =
     (let path = script_to_path w (utxo_script utxo) in
      if \<not> is_timelocked_path w path then locktime_loop w rest tx_locktime
      else if path = [] then Inl IndexError
      else locktime_loop w rest (max tx_locktime (last path + 1)))"

text \<open>Lines 147 to 155.\<close>

definition tx_locktime :: "collab \<Rightarrow> args \<Rightarrow> utxos \<Rightarrow> pyexn + int" where
  "tx_locktime w a utxos =
     (if mixdepth a = FIDELITY_BOND_MIXDEPTH w \<and> wallet_is_FidelityBondMixin w
      then locktime_loop w utxos (compute_tx_locktime w)
      else Inr (compute_tx_locktime w))"

section \<open>Assembly\<close>

text \<open>Lines 168 to 170.\<close>

definition apply_rbf :: "args \<Rightarrow> tx \<Rightarrow> tx" where
  "apply_rbf a t =
     (if optin_rbf a
      then t\<lparr>vin := map (\<lambda>inp. inp\<lparr>nSequence := 0xffffffff - 2\<rparr>) (vin t)\<rparr>
      else t)"

text \<open>
  The loop of lines 174 to 178; \<^verbatim>\<open>utxos[u]\<close> raises \<^verbatim>\<open>KeyError\<close> for an input
  the transaction builder invented.
\<close>

fun collect_inscripts ::
  "utxos \<Rightarrow> txin list \<Rightarrow> nat \<Rightarrow> pyexn + ((nat \<times> string \<times> int) list \<times> (int \<times> string) list)" where
  "collect_inscripts utxos [] i = Inr ([], [])"
| "collect_inscripts utxos (txinp # rest) i =
     (case map_of utxos (prevout txinp) of
        None \<Rightarrow> Inl KeyError
      | Some u \<Rightarrow>
          (case collect_inscripts utxos rest (i + 1) of
             Inl e \<Rightarrow> Inl e
           | Inr (inscripts, spent_outs) \<Rightarrow>
               Inr ((i, utxo_script u, utxo_value u) # inscripts,
                    (utxo_value u, utxo_script u) # spent_outs)))"

section \<open>Signing, confirmation, labelling and broadcast\<close>

text \<open>Lines 179 to 190.  \<^verbatim>\<open>if err\<close> is the truth value of the message.\<close>

definition finalize_psbt :: "collab \<Rightarrow> tx \<Rightarrow> (int \<times> string) list \<Rightarrow> wstate \<Rightarrow> outcome \<times> wstate" where
  "finalize_psbt w t spent_outs s =
     (let new_psbt = create_psbt_from_tx w t spent_outs;
          s1 = log_call EvSignPsbt s
      in case sign_psbt w new_psbt of
           (serialized_psbt, err) \<Rightarrow>
             if truthy err then (Returned RFalse, s1)
             else (Returned (RPsbt serialized_psbt), s1))"

text \<open>Lines 204 to 214: the answer, and the state with the question recorded.\<close>

definition ask_confirmation :: "collab \<Rightarrow> args \<Rightarrow> plan \<Rightarrow> tx \<Rightarrow> int \<Rightarrow> wstate \<Rightarrow> bool \<times> wstate" where
  "ask_confirmation w a p t actual_amount s =
     (if answeryes a then (True, s)
      else case accept_callback a of
             None \<Rightarrow>
               (let r = cli_prompt_user_yesno w ''Would you like to push to the network?''
                in (r, log_call (EvPrompt r) s))
           | Some cb \<Rightarrow>
               (let accepted = cb (human_readable_transaction w t) (p_destination p)
                                 actual_amount (p_fee_est p) (custom_change_addr a)
                in (accepted,
                    log_call (EvAcceptCallback (p_destination p) actual_amount
                                (p_fee_est p) accepted) s)))"

text \<open>
  Lines 215 to 220.  Modelled from the spec: \<^verbatim>\<open>wallet_service.set_address_label\<close> is
  not in the source file; by the interface \<^verbatim>\<open>labelAddress(address, label) ->
  success | UnknownAddress\<close> it stores the label for an address of the wallet
  (\<open>wallet_knows_address\<close>) and raises \<^verbatim>\<open>UnknownAddressForLabel\<close> otherwise,
  which line 218 catches.  \<^verbatim>\<open>change_addr\<close> is unbound after the sweep branch.
\<close>

definition label_change :: "collab \<Rightarrow> args \<Rightarrow> plan \<Rightarrow> wstate \<Rightarrow> pyexn + wstate" where
  "label_change w a p s =
     (if \<not> truthy (change_label a) then Inr s
      else case p_change p of
             None \<Rightarrow> Inl UnboundLocalError
           | Some (change_addr, changeval) \<Rightarrow>
               (let s1 = log_call (EvSetAddressLabel change_addr (the (change_label a))) s
                in if wallet_knows_address w change_addr
                   then Inr (s1\<lparr>address_labels :=
                                  (address_labels s1)(change_addr \<mapsto> the (change_label a))\<rparr>)
                   else Inr s1))"

text \<open>Lines 221 to 232.\<close>

definition broadcast :: "collab \<Rightarrow> args \<Rightarrow> tx \<Rightarrow> wstate \<Rightarrow> outcome \<times> wstate" where
  "broadcast w a t s =
     (let s1 = log_call (EvPushtx t) s
      in if pushtx w t
         then (Returned (if \<not> return_transaction a then RTxid (GetTxid w t) else RTx t), s1)
         else (Returned RFalse, s1))"

text \<open>Lines 192 to 232.\<close>

definition sign_and_push ::
  "collab \<Rightarrow> args \<Rightarrow> plan \<Rightarrow> tx \<Rightarrow> (nat \<times> string \<times> int) list \<Rightarrow> wstate \<Rightarrow> outcome \<times> wstate" where
  "sign_and_push w a p t inscripts s =
     (let s1 = log_call EvSignTx s
      in case sign_tx w t inscripts of
           (success, msg, signed) \<Rightarrow>
             if \<not> success then (Returned RNone, s1)
             else
               (let actual_amount = (if p_amount p \<noteq> 0 then p_amount p
                                     else p_total_inputs_val p - p_fee_est p)
                in case ask_confirmation w a p signed actual_amount s1 of
                     (ok, s2) \<Rightarrow>
                       if \<not> ok then (Returned RFalse, s2)
                       else (case label_change w a p s2 of
                               Inl e \<Rightarrow> (Raised e, s2)
                             | Inr s3 \<Rightarrow> broadcast w a signed s3)))"

section \<open>The whole function\<close>

definition direct_send :: "collab \<Rightarrow> args \<Rightarrow> wstate \<Rightarrow> outcome \<times> wstate" where
  "direct_send w a s =
     (case direct_send_plan w a s of
        (Inl oc, s1) \<Rightarrow> (oc, s1)
      | (Inr p, s1) \<Rightarrow>
          (case tx_locktime w a (p_utxos p) of
             Inl e \<Rightarrow> (Raised e, s1)
           | Inr lt \<Rightarrow>
               (let s2 = log_call (EvMakeShuffledTx (map fst (p_utxos p)) (p_outs p) 2 lt) s1;
                    t = apply_rbf a (make_shuffled_tx w (map fst (p_utxos p)) (p_outs p) 2 lt)
                in case collect_inscripts (p_utxos p) (vin t) 0 of
                     Inl e \<Rightarrow> (Raised e, s2)
                   | Inr (inscripts, spent_outs) \<Rightarrow>
                       if with_final_psbt a then finalize_psbt w t spent_outs s2
                       else sign_and_push w a p t inscripts s2)))"

section \<open>Predicates used in the statements\<close>

text \<open>The three assertions the loop makes on one target (lines 55 to 62).\<close>

definition target_asserts :: "collab \<Rightarrow> args \<Rightarrow> address \<times> int \<Rightarrow> bool" where
  "target_asserts w a t =
     ((validate_address w (fst t) \<or> is_burn_destination w (fst t))
      \<and> (snd t = 0 \<longrightarrow> custom_change_addr a = None \<and> length (dest_and_amounts a) = 1)
      \<and> snd t \<ge> 0)"

text \<open>The four additional checks on a burn destination (lines 63 to 79).\<close>

definition burn_refused :: "collab \<Rightarrow> args \<Rightarrow> address \<times> int \<Rightarrow> bool" where
  "burn_refused w a t =
     (is_burn_destination w (fst t)
      \<and> (\<not> wallet_is_FidelityBondMixin w \<or> answeryes a
         \<or> mixdepth a \<noteq> FIDELITY_BOND_MIXDEPTH w \<or> snd t \<noteq> 0))"

text \<open>No assertion of the function fails on the request.\<close>

definition asserts_hold :: "collab \<Rightarrow> args \<Rightarrow> bool" where
  "asserts_hold w a = (sanity_checks w a \<and> list_all (target_asserts w a) (dest_and_amounts a))"

text \<open>
  The specification's side of the locktime rule: the unlock times of the
  time-locked inputs, an unlock time being the last element of the path.
\<close>

definition spec_unlock_times :: "collab \<Rightarrow> utxos \<Rightarrow> int list" where
  "spec_unlock_times w us =
     map (\<lambda>(outpoint, u). last (script_to_path w (utxo_script u)))
       (filter (\<lambda>(outpoint, u). is_timelocked_path w (script_to_path w (utxo_script u))) us)"

fun is_pushtx :: "event \<Rightarrow> bool" where
  "is_pushtx (EvPushtx t) = True"
| "is_pushtx ev = False"

text \<open>A confirmation that came back negative, from the prompt or from the callback.\<close>

fun is_decline :: "event \<Rightarrow> bool" where
  "is_decline (EvPrompt r) = (\<not> r)"
| "is_decline (EvAcceptCallback d am fee r) = (\<not> r)"
| "is_decline ev = False"

definition pushtx_calls :: "event list \<Rightarrow> nat" where
  "pushtx_calls evs = length (filter is_pushtx evs)"

section \<open>Concrete collaborators and requests\<close>

text \<open>
  A wallet with one coin of 100000 satoshis in mixdepth 0 and none in mixdepths 1
  to 4, a fee of 100 per input and 50 per output, a transaction builder that keeps
  the order, a signer and a broadcast that succeed, and a prompt that is answered no.
\<close>

definition W0 :: collab where
  "W0 = \<lparr>validate_address = (\<lambda>d. d = ''addrA'' \<or> d = ''addrB''),
         is_burn_destination = (\<lambda>d. d = ''BURN''),
         wallet_is_BaseWallet = True,
         wallet_is_FidelityBondMixin = True,
         FIDELITY_BOND_MIXDEPTH = 0,
         get_outtype = (\<lambda>d. if d = ''addrA'' then Some ''p2wpkh'' else None),
         get_txtype = ''p2wpkh'',
         get_utxos_by_mixdepth =
           (\<lambda>m. if m = 0 then Some [((''t1'', 0), \<lparr>utxo_value = 100000, utxo_script = ''s1''\<rparr>)]
                else if 0 < m \<and> m < 5 then Some [] else None),
         select_utxos = (\<lambda>m target. [((''t1'', 0), \<lparr>utxo_value = 100000, utxo_script = ''s1''\<rparr>)]),
         get_utxo_scripts = map (\<lambda>u. ''p2wpkh''),
         estimate_tx_fee = (\<lambda>ins outs txtype outtype. 100 * int ins + 50 * int outs),
         get_internal_addr = (\<lambda>m. ''change''),
         compute_tx_locktime = 800000,
         script_to_path = (\<lambda>sc. if sc = ''s1'' then [0, 0, 0] else [84, 0, 0, 0, 2, 1700000000]),
         is_timelocked_path = (\<lambda>p. 4 < length p \<and> p ! 4 = 2),
         make_shuffled_tx =
           (\<lambda>ins outs v lt. \<lparr>vin = map (\<lambda>i. \<lparr>prevout = i, nSequence = 0xffffffff\<rparr>) ins,
                             vout = outs, version = v, locktime = lt\<rparr>),
         create_psbt_from_tx = (\<lambda>t spent. ''psbt''),
         sign_psbt = (\<lambda>p. (''signed-psbt'', None)),
         sign_tx = (\<lambda>t ins. (True, [], t)),
         human_readable_transaction = (\<lambda>t. ''tx''),
         cli_prompt_user_yesno = (\<lambda>q. False),
         wallet_knows_address = (\<lambda>ad. ad = ''change''),
         pushtx = (\<lambda>t. True),
         GetTxid = (\<lambda>t. ''txid'')\<rparr>"

text \<open>A payment of 50000 to one address from mixdepth 0, confirmed in advance.\<close>

definition A0 :: args where
  "A0 = \<lparr>mixdepth = 0, dest_and_amounts = [(''addrA'', 50000)], answeryes = True,
         accept_callback = None, return_transaction = False, with_final_psbt = False,
         optin_rbf = True, custom_change_addr = None, change_label = None\<rparr>"

definition S0 :: wstate where
  "S0 = \<lparr>calls = [], address_labels = (\<lambda>ad. None)\<rparr>"

text \<open>A sweep of mixdepth 0 to one address, confirmed in advance.\<close>

definition A_sweep :: args where
  "A_sweep = A0\<lparr>dest_and_amounts := [(''addrA'', 0)]\<rparr>"

text \<open>The same wallet when its only coin is worth 100 satoshis, less than the fee.\<close>

definition W_dust :: collab where
  "W_dust = W0\<lparr>get_utxos_by_mixdepth :=
                 (\<lambda>m. Some [((''t1'', 0), \<lparr>utxo_value = 100, utxo_script = ''s1''\<rparr>)])\<rparr>"

text \<open>A payment to two addresses, of 100 and of 200 satoshis.\<close>

definition A_two :: args where
  "A_two = A0\<lparr>dest_and_amounts := [(''addrA'', 100), (''addrB'', 200)]\<rparr>"

section \<open>The loop over the targets\<close>

lemma check_targets_Cons:
  "check_targets w a (t # ts) l =
     (if \<not> target_asserts w a t then Inl (Raised AssertionError)
      else if burn_refused w a t then Inl (Returned RNone)
      else check_targets w a ts
             \<lparr>is_sweep = (is_sweep l \<or> snd t = 0),
              outtypes = outtypes l @ [get_outtype w (fst t)],
              total_outputs_val = total_outputs_val l + snd t,
              l_target = Some t\<rparr>)"
  by (cases t) (auto simp: target_asserts_def burn_refused_def)

lemma check_targets_Cons_Inr:
  assumes "check_targets w a (t # ts) l = Inr l'"
  shows "check_targets w a ts
           \<lparr>is_sweep = (is_sweep l \<or> snd t = 0),
            outtypes = outtypes l @ [get_outtype w (fst t)],
            total_outputs_val = total_outputs_val l + snd t,
            l_target = Some t\<rparr> = Inr l'"
  using assms by (simp add: check_targets_Cons split: if_splits)

lemma check_targets_total:
  "check_targets w a ts l = Inr l' \<Longrightarrow>
   total_outputs_val l' = total_outputs_val l + sum_list (map snd ts)"
proof (induction ts arbitrary: l)
  case Nil
  then show ?case by simp
next
  case (Cons t ts)
  from Cons.IH [OF check_targets_Cons_Inr [OF Cons.prems]] show ?case by simp
qed

lemma check_targets_outtypes:
  "check_targets w a ts l = Inr l' \<Longrightarrow>
   outtypes l' = outtypes l @ map (\<lambda>t. get_outtype w (fst t)) ts"
proof (induction ts arbitrary: l)
  case Nil
  then show ?case by simp
next
  case (Cons t ts)
  from Cons.IH [OF check_targets_Cons_Inr [OF Cons.prems]] show ?case by simp
qed

lemma check_targets_l_target:
  "check_targets w a ts l = Inr l' \<Longrightarrow> ts \<noteq> [] \<Longrightarrow> l_target l' = Some (last ts)"
proof (induction ts arbitrary: l)
  case Nil
  then show ?case by simp
next
  case (Cons t ts)
  note step = check_targets_Cons_Inr [OF Cons.prems(1)]
  show ?case
  proof (cases "ts = []")
    case True
    with step show ?thesis by auto
  next
    case False
    with Cons.IH [OF step] show ?thesis by simp
  qed
qed

text \<open>
  When no assertion fails, the first burn destination that misses one of the four
  additional checks ends the loop with a plain \<^verbatim>\<open>return\<close>.
\<close>

lemma check_targets_burn_refused:
  assumes "list_all (target_asserts w a) ts" and "list_ex (burn_refused w a) ts"
  shows "check_targets w a ts l = Inl (Returned RNone)"
  using assms
proof (induction ts arbitrary: l)
  case Nil
  then show ?case by simp
next
  case (Cons t ts)
  show ?case
  proof (cases "burn_refused w a t")
    case True
    with Cons.prems show ?thesis by (simp add: check_targets_Cons)
  next
    case False
    with Cons.prems have "list_all (target_asserts w a) ts" "list_ex (burn_refused w a) ts"
      by simp_all
    from Cons.IH [OF this] Cons.prems(1) False show ?thesis
      by (simp add: check_targets_Cons)
  qed
qed

text \<open>
  A zero amount in a request that is not a single pair never gets through the
  loop: its own round fails the assertion of line 58, unless an earlier round
  ended the loop already.
\<close>

lemma check_targets_zero_amount:
  assumes "list_ex (\<lambda>t. snd t = 0) ts" and "length (dest_and_amounts a) \<noteq> 1"
  shows "check_targets w a ts l = Inl (Raised AssertionError)
       \<or> check_targets w a ts l = Inl (Returned RNone)"
  using assms
proof (induction ts arbitrary: l)
  case Nil
  then show ?case by simp
next
  case (Cons t ts)
  show ?case
  proof (cases "target_asserts w a t \<and> \<not> burn_refused w a t")
    case False
    then show ?thesis by (auto simp: check_targets_Cons)
  next
    case True
    with Cons.prems(2) have "snd t \<noteq> 0" by (auto simp: target_asserts_def)
    with Cons.prems have "list_ex (\<lambda>t. snd t = 0) ts" by simp
    from Cons.IH [OF this Cons.prems(2)] True show ?thesis
      by (simp add: check_targets_Cons)
  qed
qed

section \<open>Planning\<close>

lemma plan_payment_Inr:
  assumes "plan_payment w a l s = (Inr p, s')"
  shows "\<not> p_is_sweep p
     \<and> p_outs p = map (\<lambda>out. \<lparr>out_address = fst out, out_value = snd out\<rparr>) (dest_and_amounts a)
                    @ [\<lparr>out_address = (case custom_change_addr a of
                                          None \<Rightarrow> get_internal_addr w (mixdepth a) | Some c \<Rightarrow> c),
                         out_value = total_value (p_utxos p) - p_fee_est p - total_outputs_val l\<rparr>]
     \<and> p_change p = Some (case custom_change_addr a of
                             None \<Rightarrow> get_internal_addr w (mixdepth a) | Some c \<Rightarrow> c,
                          total_value (p_utxos p) - p_fee_est p - total_outputs_val l)"
proof (cases "outtypes l")
  case Nil
  with assms show ?thesis by (simp add: plan_payment_def Let_def)
next
  case (Cons o0 os)
  show ?thesis
  proof (cases "l_target l")
    case None
    with assms Cons show ?thesis by (simp add: plan_payment_def Let_def)
  next
    case (Some t)
    obtain d am where t: "t = (d, am)" by (cases t)
    from assms show ?thesis
      unfolding plan_payment_def Let_def Cons Some t
      by (simp only: list.case option.case prod.case) auto
  qed
qed

lemma plan_sweep_Inr:
  assumes "plan_sweep w a l s = (Inr p, s')"
  shows "p_is_sweep p \<and> p_outs p = [\<lparr>out_address = fst (hd (dest_and_amounts a)),
                                     out_value = total_value (p_utxos p) - p_fee_est p\<rparr>]
         \<and> p_change p = None"
proof (cases "dest_and_amounts a")
  case Nil
  with assms show ?thesis by (simp add: plan_sweep_def)
next
  case (Cons t ts)
  obtain d am where t: "t = (d, am)" by (cases t)
  show ?thesis
  proof (cases "get_utxos_by_mixdepth w (mixdepth a)")
    case None
    with assms Cons t show ?thesis by (simp add: plan_sweep_def Let_def)
  next
    case (Some us)
    show ?thesis
    proof (cases "outtypes l")
      case Nil
      with assms Cons t Some show ?thesis by (simp add: plan_sweep_def Let_def split: if_splits)
    next
      case (Cons o0 os)
      with assms \<open>dest_and_amounts a = t # ts\<close> t Some show ?thesis
        by (auto simp: plan_sweep_def Let_def split: if_splits)
    qed
  qed
qed

lemma sum_out_values:
  "sum_list (map (\<lambda>x. out_value \<lparr>out_address = fst x, out_value = snd x\<rparr>) ts)
   = sum_list (map snd ts)"
  by (induction ts) simp_all

lemma direct_send_plan_Inr:
  assumes "direct_send_plan w a s = (Inr p, s')"
  shows "\<exists>l. check_targets w a (dest_and_amounts a) locals0 = Inr l
           \<and> (if is_sweep l then plan_sweep w a l s else plan_payment w a l s) = (Inr p, s')"
  using assms
  by (auto simp: direct_send_plan_def split: if_splits sum.splits)

text \<open>
  C1.  In payment mode, when planning succeeds, the outputs handed to the
  transaction builder are the requested outputs followed by one change output, and
  the sum of their values plus the fee is exactly the sum of the values of the
  selected inputs.
\<close>

theorem payment_value_conservation:
  assumes "direct_send_plan w a s = (Inr p, s')" and "\<not> p_is_sweep p"
  shows "butlast (p_outs p) =
           map (\<lambda>out. \<lparr>out_address = fst out, out_value = snd out\<rparr>) (dest_and_amounts a)
       \<and> sum_list (map out_value (p_outs p)) + p_fee_est p = total_value (p_utxos p)"
proof -
  from direct_send_plan_Inr [OF assms(1)] obtain l where
    l: "check_targets w a (dest_and_amounts a) locals0 = Inr l" and
    pl: "(if is_sweep l then plan_sweep w a l s else plan_payment w a l s) = (Inr p, s')"
    by blast
  have "\<not> is_sweep l"
    using pl plan_sweep_Inr [of w a l s p s'] assms(2) by auto
  with pl have pp: "plan_payment w a l s = (Inr p, s')" by simp
  have tot: "total_outputs_val l = sum_list (map snd (dest_and_amounts a))"
    using check_targets_total [OF l] by (simp add: locals0_def)
  from plan_payment_Inr [OF pp] tot show ?thesis
    by (simp add: sum_out_values comp_def)
qed

theorem payment_value_conservation_witness:
  "direct_send_plan W0 A0 S0 =
     (Inr \<lparr>p_is_sweep = False,
           p_utxos = [((''t1'', 0), \<lparr>utxo_value = 100000, utxo_script = ''s1''\<rparr>)],
           p_outs = [\<lparr>out_address = ''addrA'', out_value = 50000\<rparr>,
                     \<lparr>out_address = ''change'', out_value = 49800\<rparr>],
           p_fee_est = 200, p_total_inputs_val = 100000, p_total_outputs_val = 50000,
           p_destination = ''addrA'', p_amount = 50000,
           p_change = Some (''change'', 49800)\<rparr>,
      \<lparr>calls = [EvSelectUtxos 0 50900, EvGetInternalAddr 0], address_labels = (\<lambda>ad. None)\<rparr>)
   \<and> (50000 + 49800 + 200 :: int) = 100000"
proof -
  have h: "direct_send_plan W0 A0 S0 =
     (Inr \<lparr>p_is_sweep = False,
           p_utxos = [((''t1'', 0), \<lparr>utxo_value = 100000, utxo_script = ''s1''\<rparr>)],
           p_outs = [\<lparr>out_address = ''addrA'', out_value = 50000\<rparr>,
                     \<lparr>out_address = ''change'', out_value = 49800\<rparr>],
           p_fee_est = 200, p_total_inputs_val = 100000, p_total_outputs_val = 50000,
           p_destination = ''addrA'', p_amount = 50000,
           p_change = Some (''change'', 49800)\<rparr>,
      \<lparr>calls = [EvSelectUtxos 0 50900, EvGetInternalAddr 0], address_labels = (\<lambda>ad. None)\<rparr>)"
    by (simp add: direct_send_plan_def sanity_checks_def locals0_def plan_payment_def
          log_call_def truthy_def total_value_def Let_def W0_def A0_def S0_def)
  from payment_value_conservation [OF h] h show ?thesis
    by (simp add: total_value_def)
qed

text \<open>
  C2.  A sweep request (one destination, amount 0, no custom change address) that
  passes the checks on its destination, from a mixdepth with at least one coin,
  is planned with exactly one output, of value the sum of all coins of the mixdepth
  minus the fee; the fee is estimated from the number of coins retrieved and from
  their script types, with one output of the destination's type.
\<close>

theorem sweep_single_output:
  assumes "dest_and_amounts a = [(d, 0)]"
    and "custom_change_addr a = None"
    and "0 \<le> mixdepth a"
    and "wallet_is_BaseWallet w"
    and "validate_address w d \<or> is_burn_destination w d"
    and "is_burn_destination w d \<longrightarrow>
           wallet_is_FidelityBondMixin w \<and> \<not> answeryes a \<and> mixdepth a = FIDELITY_BOND_MIXDEPTH w"
    and "get_utxos_by_mixdepth w (mixdepth a) = Some us"
    and "us \<noteq> []"
  shows "direct_send_plan w a s =
     (Inr \<lparr>p_is_sweep = True, p_utxos = us,
           p_outs = [\<lparr>out_address = d,
                      out_value = total_value us
                        - estimate_tx_fee w (length us) 1 (Listed (get_utxo_scripts w us))
                            (One (get_outtype w d))\<rparr>],
           p_fee_est = estimate_tx_fee w (length us) 1 (Listed (get_utxo_scripts w us))
                         (One (get_outtype w d)),
           p_total_inputs_val = total_value us, p_total_outputs_val = 0,
           p_destination = d, p_amount = 0, p_change = None\<rparr>,
      log_call EvGetUtxosByMixdepth s)"
proof -
  have sane: "sanity_checks w a"
    using assms(1-4) by (simp add: sanity_checks_def)
  have ok: "target_asserts w a (d, 0)" "\<not> burn_refused w a (d, 0)"
    using assms(1,2,5,6) by (auto simp: target_asserts_def burn_refused_def)
  have loop: "check_targets w a (dest_and_amounts a) locals0 =
      Inr \<lparr>is_sweep = True, outtypes = [get_outtype w d], total_outputs_val = 0,
           l_target = Some (d, 0)\<rparr>"
    using ok by (simp add: assms(1) check_targets_Cons locals0_def)
  have "direct_send_plan w a s =
      plan_sweep w a \<lparr>is_sweep = True, outtypes = [get_outtype w d], total_outputs_val = 0,
                        l_target = Some (d, 0)\<rparr> s"
    using sane by (simp add: direct_send_plan_def loop)
  also have "\<dots> =
     (Inr \<lparr>p_is_sweep = True, p_utxos = us,
           p_outs = [\<lparr>out_address = d,
                      out_value = total_value us
                        - estimate_tx_fee w (length us) 1 (Listed (get_utxo_scripts w us))
                            (One (get_outtype w d))\<rparr>],
           p_fee_est = estimate_tx_fee w (length us) 1 (Listed (get_utxo_scripts w us))
                         (One (get_outtype w d)),
           p_total_inputs_val = total_value us, p_total_outputs_val = 0,
           p_destination = d, p_amount = 0, p_change = None\<rparr>,
      log_call EvGetUtxosByMixdepth s)"
    using assms(1,7,8) by (simp add: plan_sweep_def Let_def)
  finally show ?thesis .
qed

theorem sweep_single_output_witness:
  "direct_send_plan W0 (A0\<lparr>dest_and_amounts := [(''addrA'', 0)]\<rparr>) S0 =
     (Inr \<lparr>p_is_sweep = True,
           p_utxos = [((''t1'', 0), \<lparr>utxo_value = 100000, utxo_script = ''s1''\<rparr>)],
           p_outs = [\<lparr>out_address = ''addrA'', out_value = 99850\<rparr>],
           p_fee_est = 150, p_total_inputs_val = 100000, p_total_outputs_val = 0,
           p_destination = ''addrA'', p_amount = 0, p_change = None\<rparr>,
      \<lparr>calls = [EvGetUtxosByMixdepth], address_labels = (\<lambda>ad. None)\<rparr>)"
  using sweep_single_output [of "A0\<lparr>dest_and_amounts := [(''addrA'', 0)]\<rparr>" "''addrA''" W0
      "[((''t1'', 0), \<lparr>utxo_value = 100000, utxo_script = ''s1''\<rparr>)]" S0]
  by (simp add: W0_def A0_def S0_def total_value_def log_call_def)

text \<open>
  C5.  On a request that fails none of the function's assertions and holds a burn
  destination, if the wallet is not a fidelity bond wallet, or \<^verbatim>\<open>answeryes\<close> is
  set, or the mixdepth is not the fidelity bond mixdepth, or the amount sent to the
  burn destination is not zero, the function returns \<^verbatim>\<open>None\<close> from the loop: no
  coin is selected or retrieved, no transaction is built, signed or broadcast, no
  confirmation is asked and no label is changed.
\<close>

theorem burn_rejected_before_selection:
  assumes "asserts_hold w a"
    and "list_ex (burn_refused w a) (dest_and_amounts a)"
  shows "direct_send w a s = (Returned RNone, s)"
  using assms check_targets_burn_refused [of w a "dest_and_amounts a" locals0]
  by (simp add: asserts_hold_def direct_send_def direct_send_plan_def)

theorem burn_rejected_before_selection_witness:
  "asserts_hold W0 (A0\<lparr>dest_and_amounts := [(''BURN'', 0)]\<rparr>)
   \<and> list_ex (burn_refused W0 (A0\<lparr>dest_and_amounts := [(''BURN'', 0)]\<rparr>))
       (dest_and_amounts (A0\<lparr>dest_and_amounts := [(''BURN'', 0)]\<rparr>))
   \<and> direct_send W0 (A0\<lparr>dest_and_amounts := [(''BURN'', 0)]\<rparr>) S0 = (Returned RNone, S0)"
proof -
  have h1: "asserts_hold W0 (A0\<lparr>dest_and_amounts := [(''BURN'', 0)]\<rparr>)"
    by (simp add: asserts_hold_def sanity_checks_def target_asserts_def W0_def A0_def)
  have h2: "list_ex (burn_refused W0 (A0\<lparr>dest_and_amounts := [(''BURN'', 0)]\<rparr>))
       (dest_and_amounts (A0\<lparr>dest_and_amounts := [(''BURN'', 0)]\<rparr>))"
    by (simp add: burn_refused_def W0_def A0_def)
  from burn_rejected_before_selection [OF h1 h2] h1 h2 show ?thesis by simp
qed

text \<open>
  C8 as stated fails: a request with a zero amount and a second destination ends
  in an \<^verbatim>\<open>AssertionError\<close> that nothing catches, not in a returned value.
\<close>

theorem zero_amount_multi_counterexample:
  "length (dest_and_amounts (A0\<lparr>dest_and_amounts := [(''addrA'', 0), (''addrB'', 5)]\<rparr>)) = 2
   \<and> snd (hd (dest_and_amounts (A0\<lparr>dest_and_amounts := [(''addrA'', 0), (''addrB'', 5)]\<rparr>))) = 0
   \<and> fst (direct_send W0 (A0\<lparr>dest_and_amounts := [(''addrA'', 0), (''addrB'', 5)]\<rparr>) S0)
       = Raised AssertionError
   \<and> fst (direct_send W0 (A0\<lparr>dest_and_amounts := [(''addrA'', 0), (''addrB'', 5)]\<rparr>) S0)
       \<noteq> Returned RFalse"
  by (simp add: direct_send_def direct_send_plan_def sanity_checks_def locals0_def
        W0_def A0_def S0_def)

text \<open>
  C8 as amended.  A request that holds a zero amount and more than one destination
  never gets past the loop over the targets: the call ends in an
  \<^verbatim>\<open>AssertionError\<close>, or in \<^verbatim>\<open>None\<close> returned by the burn checks of an
  earlier target.  The recorded state is then what it was before the call: no coin
  has been selected or retrieved, no change address fetched, no transaction built
  or signed, no confirmation asked, no label set and nothing broadcast.  The
  statement does not cover the address queries of the loop
  (\<^verbatim>\<open>validate_address\<close>, \<^verbatim>\<open>is_burn_destination\<close>, \<^verbatim>\<open>get_outtype\<close>),
  which are not recorded and which run on the targets the loop reaches.
\<close>

theorem zero_amount_multi_ends_in_validation:
  assumes "list_ex (\<lambda>t. snd t = 0) (dest_and_amounts a)"
    and "length (dest_and_amounts a) > 1"
  shows "snd (direct_send w a s) = s
       \<and> (fst (direct_send w a s) = Raised AssertionError
          \<or> fst (direct_send w a s) = Returned RNone)"
proof -
  from assms(2) have "length (dest_and_amounts a) \<noteq> 1" by simp
  from check_targets_zero_amount [OF assms(1) this, of w locals0] show ?thesis
    by (auto simp: direct_send_def direct_send_plan_def)
qed

theorem zero_amount_multi_ends_in_validation_witness:
  "list_ex (\<lambda>t. snd t = 0) (dest_and_amounts (A0\<lparr>dest_and_amounts := [(''BURN'', 7), (''addrB'', 0)]\<rparr>))
   \<and> length (dest_and_amounts (A0\<lparr>dest_and_amounts := [(''BURN'', 7), (''addrB'', 0)]\<rparr>)) > 1
   \<and> snd (direct_send W0 (A0\<lparr>dest_and_amounts := [(''BURN'', 7), (''addrB'', 0)]\<rparr>) S0) = S0
   \<and> fst (direct_send W0 (A0\<lparr>dest_and_amounts := [(''BURN'', 7), (''addrB'', 0)]\<rparr>) S0)
       = Returned RNone"
proof -
  have h1: "list_ex (\<lambda>t. snd t = 0)
      (dest_and_amounts (A0\<lparr>dest_and_amounts := [(''BURN'', 7), (''addrB'', 0)]\<rparr>))"
    by simp
  have h2: "length (dest_and_amounts (A0\<lparr>dest_and_amounts := [(''BURN'', 7), (''addrB'', 0)]\<rparr>)) > 1"
    by simp
  have h3: "fst (direct_send W0 (A0\<lparr>dest_and_amounts := [(''BURN'', 7), (''addrB'', 0)]\<rparr>) S0)
       = Returned RNone"
    by (simp add: direct_send_def direct_send_plan_def sanity_checks_def locals0_def
        W0_def A0_def S0_def)
  from zero_amount_multi_ends_in_validation [OF h1 h2, of W0 S0] h1 h2 h3 show ?thesis
    by simp
qed

section \<open>Locktime\<close>

lemma fold_max_succ:
  fixes b :: int
  shows "ts \<noteq> [] \<Longrightarrow> fold (\<lambda>t acc. max acc (t + 1)) ts b = max b (Max (set ts) + 1)"
proof (induction ts arbitrary: b)
  case Nil
  then show ?case by simp
next
  case (Cons t ts)
  show ?case
  proof (cases "ts = []")
    case True
    then show ?thesis by simp
  next
    case False
    from Cons.IH [OF False, of "max b (t + 1)"] False show ?thesis
      by (simp add: max.assoc)
  qed
qed

text \<open>
  When every time-locked path has a last element, the loop raises nothing and
  folds \<open>max\<close> over the unlock times plus one.
\<close>

lemma locktime_loop_fold:
  assumes "\<forall>(outpoint, u) \<in> set us.
             is_timelocked_path w (script_to_path w (utxo_script u))
             \<longrightarrow> script_to_path w (utxo_script u) \<noteq> []"
  shows "locktime_loop w us b = Inr (fold (\<lambda>t acc. max acc (t + 1)) (spec_unlock_times w us) b)"
  using assms
proof (induction us arbitrary: b)
  case Nil
  then show ?case by (simp add: spec_unlock_times_def)
next
  case (Cons x us)
  obtain outpoint u where x: "x = (outpoint, u)" by (cases x)
  from Cons.prems have rest: "\<forall>(outpoint, u) \<in> set us.
             is_timelocked_path w (script_to_path w (utxo_script u))
             \<longrightarrow> script_to_path w (utxo_script u) \<noteq> []"
    by simp
  from Cons.prems x have here: "is_timelocked_path w (script_to_path w (utxo_script u))
             \<Longrightarrow> script_to_path w (utxo_script u) \<noteq> []"
    by simp
  show ?case
  proof (cases "is_timelocked_path w (script_to_path w (utxo_script u))")
    case False
    with Cons.IH [OF rest, of b] show ?thesis
      by (simp add: x spec_unlock_times_def)
  next
    case True
    with here Cons.IH [OF rest, of "max b (last (script_to_path w (utxo_script u)) + 1)"]
    show ?thesis
      by (simp add: x spec_unlock_times_def Let_def)
  qed
qed

text \<open>
  C6.  Provided every time-locked path has a last element to read: when the
  mixdepth is the fidelity bond mixdepth of a fidelity bond wallet and some
  selected input is time-locked, the locktime is the larger of the base locktime
  and the largest unlock time plus one, and lies strictly above every unlock
  time; when no selected input is time-locked, the locktime is the base
  locktime.
\<close>

theorem locktime_rule:
  assumes "\<forall>(outpoint, u) \<in> set us.
             is_timelocked_path w (script_to_path w (utxo_script u))
             \<longrightarrow> script_to_path w (utxo_script u) \<noteq> []"
  shows "(mixdepth a = FIDELITY_BOND_MIXDEPTH w \<and> wallet_is_FidelityBondMixin w
          \<and> spec_unlock_times w us \<noteq> []
          \<longrightarrow> tx_locktime w a us =
                Inr (max (compute_tx_locktime w) (Max (set (spec_unlock_times w us)) + 1))
              \<and> (\<forall>t \<in> set (spec_unlock_times w us).
                    t < max (compute_tx_locktime w) (Max (set (spec_unlock_times w us)) + 1)))
       \<and> (spec_unlock_times w us = [] \<longrightarrow> tx_locktime w a us = Inr (compute_tx_locktime w))"
proof (intro conjI impI ballI)
  assume fb: "mixdepth a = FIDELITY_BOND_MIXDEPTH w \<and> wallet_is_FidelityBondMixin w
          \<and> spec_unlock_times w us \<noteq> []"
  then show "tx_locktime w a us =
      Inr (max (compute_tx_locktime w) (Max (set (spec_unlock_times w us)) + 1))"
    by (simp add: tx_locktime_def locktime_loop_fold [OF assms] fold_max_succ)
next
  fix t
  assume "t \<in> set (spec_unlock_times w us)"
  then have "t \<le> Max (set (spec_unlock_times w us))" by simp
  then show "t < max (compute_tx_locktime w) (Max (set (spec_unlock_times w us)) + 1)"
    by simp
next
  assume "spec_unlock_times w us = []"
  then show "tx_locktime w a us = Inr (compute_tx_locktime w)"
    by (simp add: tx_locktime_def locktime_loop_fold [OF assms])
qed

theorem locktime_rule_witness:
  "spec_unlock_times W0 [((''t1'', 0), \<lparr>utxo_value = 5, utxo_script = ''s1''\<rparr>),
                         ((''t2'', 1), \<lparr>utxo_value = 7, utxo_script = ''s2''\<rparr>)] = [1700000000]
   \<and> tx_locktime W0 A0 [((''t1'', 0), \<lparr>utxo_value = 5, utxo_script = ''s1''\<rparr>),
                        ((''t2'', 1), \<lparr>utxo_value = 7, utxo_script = ''s2''\<rparr>)] = Inr 1700000001
   \<and> spec_unlock_times W0 [((''t1'', 0), \<lparr>utxo_value = 5, utxo_script = ''s1''\<rparr>)] = []
   \<and> tx_locktime W0 A0 [((''t1'', 0), \<lparr>utxo_value = 5, utxo_script = ''s1''\<rparr>)] = Inr 800000"
proof -
  have u2: "spec_unlock_times W0 [((''t1'', 0), \<lparr>utxo_value = 5, utxo_script = ''s1''\<rparr>),
                         ((''t2'', 1), \<lparr>utxo_value = 7, utxo_script = ''s2''\<rparr>)] = [1700000000]"
    by (simp add: spec_unlock_times_def W0_def)
  have u1: "spec_unlock_times W0 [((''t1'', 0), \<lparr>utxo_value = 5, utxo_script = ''s1''\<rparr>)] = []"
    by (simp add: spec_unlock_times_def W0_def)
  have fb: "mixdepth A0 = FIDELITY_BOND_MIXDEPTH W0 \<and> wallet_is_FidelityBondMixin W0"
    by (simp add: W0_def A0_def)
  have base: "compute_tx_locktime W0 = 800000"
    by (simp add: W0_def)
  have p2: "\<forall>(outpoint, u) \<in> set [((''t1'', 0), \<lparr>utxo_value = 5, utxo_script = ''s1''\<rparr>),
                         ((''t2'', 1::nat), \<lparr>utxo_value = 7, utxo_script = ''s2''\<rparr>)].
             is_timelocked_path W0 (script_to_path W0 (utxo_script u))
             \<longrightarrow> script_to_path W0 (utxo_script u) \<noteq> []"
    by (simp add: W0_def)
  have p1: "\<forall>(outpoint, u) \<in> set [((''t1'', 0::nat), \<lparr>utxo_value = 5, utxo_script = ''s1''\<rparr>)].
             is_timelocked_path W0 (script_to_path W0 (utxo_script u))
             \<longrightarrow> script_to_path W0 (utxo_script u) \<noteq> []"
    by (simp add: W0_def)
  from locktime_rule [OF p2, of A0] locktime_rule [OF p1, of A0] u1 u2 fb base
  show ?thesis by simp
qed

section \<open>The calls made by each stage\<close>

lemma calls_log_call [simp]:
  "calls (log_call ev s) = calls s @ [ev]"
  "address_labels (log_call ev s) = address_labels s"
  by (simp_all add: log_call_def)

lemma plan_sweep_calls:
  "calls (snd (plan_sweep w a l s)) = calls s
   \<or> calls (snd (plan_sweep w a l s)) = calls s @ [EvGetUtxosByMixdepth]"
  by (simp add: plan_sweep_def Let_def split: list.split option.split prod.split)

lemma plan_payment_calls:
  "calls (snd (plan_payment w a l s)) = calls s
   \<or> (\<exists>target. calls (snd (plan_payment w a l s)) = calls s @ [EvSelectUtxos (mixdepth a) target]
        \<or> calls (snd (plan_payment w a l s))
            = calls s @ [EvSelectUtxos (mixdepth a) target, EvGetInternalAddr (mixdepth a)])"
  by (simp add: plan_payment_def Let_def split: list.split option.split prod.split)

lemma direct_send_plan_calls:
  "filter is_pushtx (calls (snd (direct_send_plan w a s))) = filter is_pushtx (calls s)
   \<and> filter is_decline (calls (snd (direct_send_plan w a s))) = filter is_decline (calls s)"
proof (cases "sanity_checks w a")
  case False
  then show ?thesis by (simp add: direct_send_plan_def)
next
  case True
  show ?thesis
  proof (cases "check_targets w a (dest_and_amounts a) locals0")
    case (Inl oc)
    with True show ?thesis by (simp add: direct_send_plan_def)
  next
    case (Inr l)
    show ?thesis
    proof (cases "is_sweep l")
      case sw: True
      with True Inr have "direct_send_plan w a s = plan_sweep w a l s"
        by (simp add: direct_send_plan_def)
      with plan_sweep_calls [of w a l s] show ?thesis by auto
    next
      case pay: False
      with True Inr have "direct_send_plan w a s = plan_payment w a l s"
        by (simp add: direct_send_plan_def)
      with plan_payment_calls [of w a l s] show ?thesis by auto
    qed
  qed
qed

lemma finalize_psbt_calls:
  "calls (snd (finalize_psbt w t spent_outs s)) = calls s @ [EvSignPsbt]"
  by (simp add: finalize_psbt_def Let_def split: prod.split)

lemma ask_confirmation_calls:
  assumes "ask_confirmation w a p t actual_amount s = (ok, s')"
  shows "\<exists>evs. calls s' = calls s @ evs \<and> filter is_pushtx evs = []
               \<and> (ok \<longrightarrow> filter is_decline evs = [])
               \<and> address_labels s' = address_labels s"
  using assms
  by (auto simp: ask_confirmation_def Let_def split: if_splits option.splits)

lemma label_change_calls:
  assumes "label_change w a p s = Inr s'"
  shows "\<exists>evs. calls s' = calls s @ evs \<and> filter is_pushtx evs = [] \<and> filter is_decline evs = []"
  using assms
  by (auto simp: label_change_def Let_def split: if_splits option.splits)

lemma broadcast_calls:
  "calls (snd (broadcast w a t s)) = calls s @ [EvPushtx t]"
  by (simp add: broadcast_def Let_def)

text \<open>
  After \<^verbatim>\<open>sign_tx\<close>: either signing failed, or the confirmation was refused, or
  labelling raised, and then nothing was broadcast; or the call went on to the
  broadcast, and then no refusal was recorded.
\<close>

lemma sign_and_push_calls:
  "\<exists>evs. calls (snd (sign_and_push w a p t inscripts s)) = calls s @ evs
         \<and> (filter is_pushtx evs = [] \<or> filter is_decline evs = [])"
proof -
  obtain success msg signed where sg: "sign_tx w t inscripts = (success, msg, signed)"
    by (cases "sign_tx w t inscripts")
  let ?s1 = "log_call EvSignTx s"
  let ?amt = "if p_amount p \<noteq> 0 then p_amount p else p_total_inputs_val p - p_fee_est p"
  show ?thesis
  proof (cases success)
    case False
    with sg have "calls (snd (sign_and_push w a p t inscripts s)) = calls s @ [EvSignTx]"
      by (simp add: sign_and_push_def Let_def)
    then show ?thesis by simp
  next
    case True
    obtain ok s2 where ac: "ask_confirmation w a p signed ?amt ?s1 = (ok, s2)"
      by (cases "ask_confirmation w a p signed ?amt ?s1")
    from ask_confirmation_calls [OF ac] obtain evs where
      evs: "calls s2 = calls ?s1 @ evs" "filter is_pushtx evs = []"
           "ok \<longrightarrow> filter is_decline evs = []"
      by blast
    show ?thesis
    proof (cases ok)
      case False
      with sg True ac have "snd (sign_and_push w a p t inscripts s) = s2"
        by (simp add: sign_and_push_def Let_def)
      with evs show ?thesis by simp
    next
      case ok: True
      show ?thesis
      proof (cases "label_change w a p s2")
        case (Inl e)
        with sg True ac ok have "snd (sign_and_push w a p t inscripts s) = s2"
          by (simp add: sign_and_push_def Let_def)
        with evs show ?thesis by simp
      next
        case (Inr s3)
        from label_change_calls [OF Inr] obtain evs' where
          evs': "calls s3 = calls s2 @ evs'" "filter is_decline evs' = []"
          by blast
        from sg True ac ok Inr
        have "snd (sign_and_push w a p t inscripts s) = snd (broadcast w a signed s3)"
          by (simp add: sign_and_push_def Let_def)
        with evs evs' ok show ?thesis by (simp add: broadcast_calls)
      qed
    qed
  qed
qed

text \<open>
  The calls of \<^verbatim>\<open>direct_send\<close> after the planning, from the transaction builder
  on, when planning and the locktime succeed.
\<close>

lemma direct_send_after_plan:
  assumes "direct_send_plan w a s = (Inr p, s1)" and "tx_locktime w a (p_utxos p) = Inr lt"
  shows "\<exists>evs. calls (snd (direct_send w a s))
               = calls s1 @ [EvMakeShuffledTx (map fst (p_utxos p)) (p_outs p) 2 lt] @ evs
             \<and> (with_final_psbt a \<longrightarrow> filter is_pushtx evs = [])
             \<and> (filter is_pushtx evs = [] \<or> filter is_decline evs = [])"
proof -
  let ?s2 = "log_call (EvMakeShuffledTx (map fst (p_utxos p)) (p_outs p) 2 lt) s1"
  let ?t = "apply_rbf a (make_shuffled_tx w (map fst (p_utxos p)) (p_outs p) 2 lt)"
  show ?thesis
  proof (cases "collect_inscripts (p_utxos p) (vin ?t) 0")
    case (Inl e)
    with assms have "snd (direct_send w a s) = ?s2"
      by (simp add: direct_send_def Let_def)
    then show ?thesis by simp
  next
    case (Inr r)
    obtain inscripts spent_outs where r: "r = (inscripts, spent_outs)" by (cases r)
    show ?thesis
    proof (cases "with_final_psbt a")
      case True
      with assms Inr r have "snd (direct_send w a s) = snd (finalize_psbt w ?t spent_outs ?s2)"
        by (simp add: direct_send_def Let_def)
      then show ?thesis by (simp add: finalize_psbt_calls)
    next
      case False
      with assms Inr r have "snd (direct_send w a s) = snd (sign_and_push w a p ?t inscripts ?s2)"
        by (simp add: direct_send_def Let_def)
      with sign_and_push_calls [of w a p ?t inscripts ?s2] False show ?thesis by auto
    qed
  qed
qed

lemma direct_send_stops_early:
  assumes "direct_send_plan w a s = (r, s1)"
    and "(\<exists>oc. r = Inl oc) \<or> (\<exists>p e. r = Inr p \<and> tx_locktime w a (p_utxos p) = Inl e)"
  shows "snd (direct_send w a s) = s1"
  using assms by (auto simp: direct_send_def)

text \<open>
  C7.  When \<^verbatim>\<open>with_final_psbt\<close> is set, or when the prompt or the accept callback
  answers no during the call, the call makes no broadcast: the number of
  \<^verbatim>\<open>pushtx\<close> calls is what it was before.
\<close>

theorem no_broadcast_on_decline_or_psbt:
  assumes "with_final_psbt a
         \<or> (\<not> list_ex is_decline (calls s) \<and> list_ex is_decline (calls (snd (direct_send w a s))))"
  shows "pushtx_calls (calls (snd (direct_send w a s))) = pushtx_calls (calls s)"
proof -
  obtain r s1 where plan: "direct_send_plan w a s = (r, s1)"
    by (cases "direct_send_plan w a s")
  from direct_send_plan_calls [of w a s] plan
  have keep: "filter is_pushtx (calls s1) = filter is_pushtx (calls s)"
             "filter is_decline (calls s1) = filter is_decline (calls s)"
    by simp_all
  show ?thesis
  proof (cases "\<exists>p lt. r = Inr p \<and> tx_locktime w a (p_utxos p) = Inr lt")
    case False
    then have "(\<exists>oc. r = Inl oc) \<or> (\<exists>p e. r = Inr p \<and> tx_locktime w a (p_utxos p) = Inl e)"
      by (cases r) (auto intro: sum.exhaust)
    from direct_send_stops_early [OF plan this] keep show ?thesis
      by (simp add: pushtx_calls_def)
  next
    case True
    then obtain p lt where p: "r = Inr p" "tx_locktime w a (p_utxos p) = Inr lt" by blast
    from direct_send_after_plan [OF plan [unfolded p(1)] p(2)] obtain evs where
      evs: "calls (snd (direct_send w a s))
               = calls s1 @ [EvMakeShuffledTx (map fst (p_utxos p)) (p_outs p) 2 lt] @ evs"
           "with_final_psbt a \<longrightarrow> filter is_pushtx evs = []"
           "filter is_pushtx evs = [] \<or> filter is_decline evs = []"
      by blast
    have "filter is_pushtx evs = []"
    proof (cases "with_final_psbt a")
      case True
      with evs(2) show ?thesis by simp
    next
      case False
      with assms have d: "filter is_decline (calls s) = []"
        "filter is_decline (calls (snd (direct_send w a s))) \<noteq> []"
        by (simp_all add: list_ex_iff filter_empty_conv)
      from d keep(2) evs(1) have "filter is_decline evs \<noteq> []" by simp
      with evs(3) show ?thesis by simp
    qed
    with evs(1) keep(1) show ?thesis by (simp add: pushtx_calls_def)
  qed
qed

theorem no_broadcast_on_decline_or_psbt_witness:
  "\<not> list_ex is_decline (calls S0)
   \<and> list_ex is_decline (calls (snd (direct_send W0 (A0\<lparr>answeryes := False\<rparr>) S0)))
   \<and> pushtx_calls (calls (snd (direct_send W0 (A0\<lparr>answeryes := False\<rparr>) S0))) = 0
   \<and> with_final_psbt (A0\<lparr>with_final_psbt := True\<rparr>)
   \<and> pushtx_calls (calls (snd (direct_send W0 (A0\<lparr>with_final_psbt := True\<rparr>) S0))) = 0"
proof -
  have c: "calls (snd (direct_send W0 (A0\<lparr>answeryes := False\<rparr>) S0)) =
      [EvSelectUtxos 0 50900, EvGetInternalAddr 0,
       EvMakeShuffledTx [(''t1'', 0)]
         [\<lparr>out_address = ''addrA'', out_value = 50000\<rparr>,
          \<lparr>out_address = ''change'', out_value = 49800\<rparr>] 2 800000,
       EvSignTx, EvPrompt False]"
    by (simp add: direct_send_def direct_send_plan_def sanity_checks_def locals0_def
          plan_payment_def tx_locktime_def apply_rbf_def sign_and_push_def
          ask_confirmation_def log_call_def truthy_def total_value_def Let_def
          W0_def A0_def S0_def)
  have h1: "\<not> list_ex is_decline (calls S0)
      \<and> list_ex is_decline (calls (snd (direct_send W0 (A0\<lparr>answeryes := False\<rparr>) S0)))"
    by (simp add: c) (simp add: S0_def)
  have h2: "with_final_psbt (A0\<lparr>with_final_psbt := True\<rparr>)" by simp
  have z: "pushtx_calls (calls S0) = 0" by (simp add: S0_def pushtx_calls_def)
  from no_broadcast_on_decline_or_psbt [of "A0\<lparr>answeryes := False\<rparr>" S0 W0]
       no_broadcast_on_decline_or_psbt [of "A0\<lparr>with_final_psbt := True\<rparr>" S0 W0] h1 h2 z
  show ?thesis by simp
qed

section \<open>The selection target, the residual, the return values and the label\<close>

lemmas run_defs =
  direct_send_def direct_send_plan_def sanity_checks_def locals0_def plan_sweep_def
  plan_payment_def tx_locktime_def apply_rbf_def finalize_psbt_def sign_and_push_def
  ask_confirmation_def label_change_def broadcast_def log_call_def truthy_def
  total_value_def Let_def

text \<open>
  In payment mode \<^verbatim>\<open>select_utxos\<close> is asked for the amount of the last target
  plus the conservative fee.
\<close>

lemma plan_payment_target:
  assumes "plan_payment w a l s = (Inr p, s')" and "l_target l = Some (d, am)"
  shows "\<exists>fee evs. calls s' = calls s @ EvSelectUtxos (mixdepth a) (am + fee) # evs
           \<and> p_utxos p = select_utxos w (mixdepth a) (am + fee)"
proof (cases "outtypes l")
  case Nil
  with assms show ?thesis by (simp add: plan_payment_def Let_def)
next
  case (Cons o0 os)
  from assms(1) show ?thesis
    unfolding plan_payment_def Let_def Cons assms(2)
    by (simp only: list.case option.case prod.case) auto
qed

text \<open>
  C3 fails on the code: with the two targets of 100 and 200 satoshis and a
  conservative fee of 950, the selector is asked for 1150, the last amount plus
  the fee, and not for 1250, the total plus the fee.
\<close>

theorem select_target_is_last_amount:
  "calls (snd (direct_send_plan W0 A_two S0)) = [EvSelectUtxos 0 1150, EvGetInternalAddr 0]
   \<and> sum_list (map snd (dest_and_amounts A_two))
       + estimate_tx_fee W0 8 (length (dest_and_amounts A_two) + 1) (One (get_txtype W0))
           (Listed [Some ''p2wpkh'', None, Some ''p2wpkh'']) = 1250"
  by (simp add: run_defs W0_def A0_def A_two_def S0_def)

text \<open>
  C4 as stated fails: sweeping a single coin of 100 satoshis at a fee of 150 builds,
  signs and broadcasts a transaction whose only output has value -50.
\<close>

theorem negative_output_counterexample:
  "fst (direct_send W_dust A_sweep S0) = Returned (RTxid ''txid'')
   \<and> calls (snd (direct_send W_dust A_sweep S0)) =
       [EvGetUtxosByMixdepth,
        EvMakeShuffledTx [(''t1'', 0)] [\<lparr>out_address = ''addrA'', out_value = - 50\<rparr>] 2 800000,
        EvSignTx,
        EvPushtx \<lparr>vin = [\<lparr>prevout = (''t1'', 0), nSequence = 4294967293\<rparr>],
                  vout = [\<lparr>out_address = ''addrA'', out_value = - 50\<rparr>],
                  version = 2, locktime = 800000\<rparr>]"
  by (simp add: run_defs W_dust_def W0_def A0_def A_sweep_def S0_def)

text \<open>
  C4 as amended.  The function has no check on the sign of the residual: whenever
  planning and the locktime succeed, the transaction builder is called with the
  planned outputs, the last of which carries the residual as it was computed, be
  it negative: the sum of the inputs minus the fee in a sweep, and minus the total
  requested amount as well in a payment.
\<close>

theorem residual_handed_to_builder:
  assumes "direct_send_plan w a s = (Inr p, s1)" and "tx_locktime w a (p_utxos p) = Inr lt"
  shows "EvMakeShuffledTx (map fst (p_utxos p)) (p_outs p) 2 lt
           \<in> set (calls (snd (direct_send w a s)))
       \<and> p_outs p \<noteq> []
       \<and> out_value (last (p_outs p)) =
           (if p_is_sweep p then total_value (p_utxos p) - p_fee_est p
            else total_value (p_utxos p) - p_fee_est p
                   - sum_list (map snd (dest_and_amounts a)))"
proof -
  from direct_send_after_plan [OF assms]
  have ev: "EvMakeShuffledTx (map fst (p_utxos p)) (p_outs p) 2 lt
           \<in> set (calls (snd (direct_send w a s)))"
    by auto
  from direct_send_plan_Inr [OF assms(1)] obtain l where
    l: "check_targets w a (dest_and_amounts a) locals0 = Inr l" and
    pl: "(if is_sweep l then plan_sweep w a l s else plan_payment w a l s) = (Inr p, s1)"
    by blast
  have tot: "total_outputs_val l = sum_list (map snd (dest_and_amounts a))"
    using check_targets_total [OF l] by (simp add: locals0_def)
  have "p_outs p \<noteq> [] \<and> out_value (last (p_outs p)) =
           (if p_is_sweep p then total_value (p_utxos p) - p_fee_est p
            else total_value (p_utxos p) - p_fee_est p
                   - sum_list (map snd (dest_and_amounts a)))"
  proof (cases "is_sweep l")
    case True
    with pl have "plan_sweep w a l s = (Inr p, s1)" by simp
    from plan_sweep_Inr [OF this] show ?thesis by simp
  next
    case False
    with pl have "plan_payment w a l s = (Inr p, s1)" by simp
    from plan_payment_Inr [OF this] tot show ?thesis by simp
  qed
  with ev show ?thesis by simp
qed

theorem residual_handed_to_builder_witness:
  "direct_send_plan W_dust A_sweep S0 =
     (Inr \<lparr>p_is_sweep = True,
           p_utxos = [((''t1'', 0), \<lparr>utxo_value = 100, utxo_script = ''s1''\<rparr>)],
           p_outs = [\<lparr>out_address = ''addrA'', out_value = - 50\<rparr>],
           p_fee_est = 150, p_total_inputs_val = 100, p_total_outputs_val = 0,
           p_destination = ''addrA'', p_amount = 0, p_change = None\<rparr>,
      \<lparr>calls = [EvGetUtxosByMixdepth], address_labels = (\<lambda>ad. None)\<rparr>)
   \<and> tx_locktime W_dust A_sweep [((''t1'', 0), \<lparr>utxo_value = 100, utxo_script = ''s1''\<rparr>)]
       = Inr 800000
   \<and> EvMakeShuffledTx [(''t1'', 0)] [\<lparr>out_address = ''addrA'', out_value = - 50\<rparr>] 2 800000
       \<in> set (calls (snd (direct_send W_dust A_sweep S0)))"
proof -
  have h1: "direct_send_plan W_dust A_sweep S0 =
     (Inr \<lparr>p_is_sweep = True,
           p_utxos = [((''t1'', 0), \<lparr>utxo_value = 100, utxo_script = ''s1''\<rparr>)],
           p_outs = [\<lparr>out_address = ''addrA'', out_value = - 50\<rparr>],
           p_fee_est = 150, p_total_inputs_val = 100, p_total_outputs_val = 0,
           p_destination = ''addrA'', p_amount = 0, p_change = None\<rparr>,
      \<lparr>calls = [EvGetUtxosByMixdepth], address_labels = (\<lambda>ad. None)\<rparr>)"
    by (simp add: run_defs W_dust_def W0_def A0_def A_sweep_def S0_def)
  have h2: "tx_locktime W_dust A_sweep
      (p_utxos \<lparr>p_is_sweep = True,
           p_utxos = [((''t1'', 0), \<lparr>utxo_value = 100, utxo_script = ''s1''\<rparr>)],
           p_outs = [\<lparr>out_address = ''addrA'', out_value = - 50\<rparr>],
           p_fee_est = 150, p_total_inputs_val = 100, p_total_outputs_val = 0,
           p_destination = ''addrA'', p_amount = 0, p_change = None\<rparr>) = Inr 800000"
    by (simp add: run_defs W_dust_def W0_def A0_def A_sweep_def)
  from residual_handed_to_builder [OF h1 h2] h1 h2 show ?thesis by simp
qed

text \<open>
  C9 fails on the code: the docstring promises \<^verbatim>\<open>False\<close> on any failure, but a
  sweep of an empty mixdepth returns \<^verbatim>\<open>None\<close>, as do a refused burn and a failed
  \<^verbatim>\<open>sign_tx\<close>, while a refused confirmation returns \<^verbatim>\<open>False\<close>.
\<close>

theorem failure_values_differ:
  "fst (direct_send W0 (A_sweep\<lparr>mixdepth := 1\<rparr>) S0) = Returned RNone
   \<and> fst (direct_send W0 (A0\<lparr>dest_and_amounts := [(''BURN'', 0)]\<rparr>) S0) = Returned RNone
   \<and> fst (direct_send (W0\<lparr>sign_tx := (\<lambda>t ins. (False, ''no key'', t))\<rparr>) A0 S0) = Returned RNone
   \<and> fst (direct_send W0 (A0\<lparr>answeryes := False\<rparr>) S0) = Returned RFalse
   \<and> fst (direct_send (W0\<lparr>pushtx := (\<lambda>t. False)\<rparr>) A0 S0) = Returned RFalse"
  by (simp add: run_defs W0_def A0_def A_sweep_def S0_def)

text \<open>
  In payment mode the label is set, for an address of the wallet, after the
  confirmation and before the broadcast; an address the wallet does not know
  leaves the labels as they were; the outcome is that of the broadcast alone, and
  a failed broadcast leaves the label in place.
\<close>

lemma label_then_broadcast:
  assumes "p_change p = Some (change_addr, changeval)"
    and "change_label a = Some lbl" and "lbl \<noteq> []"
    and "sign_tx w t inscripts = (True, msg, signed)"
    and "ask_confirmation w a p signed
           (if p_amount p \<noteq> 0 then p_amount p else p_total_inputs_val p - p_fee_est p)
           (log_call EvSignTx s) = (True, s2)"
  shows "calls (snd (sign_and_push w a p t inscripts s))
           = calls s2 @ [EvSetAddressLabel change_addr lbl, EvPushtx signed]
       \<and> address_labels (snd (sign_and_push w a p t inscripts s))
           = (if wallet_knows_address w change_addr
              then (address_labels s)(change_addr \<mapsto> lbl) else address_labels s)
       \<and> fst (sign_and_push w a p t inscripts s)
           = (if pushtx w signed
              then Returned (if \<not> return_transaction a then RTxid (GetTxid w signed)
                             else RTx signed)
              else Returned RFalse)"
proof -
  from ask_confirmation_calls [OF assms(5)]
  have lab: "address_labels s2 = address_labels s" by auto
  from assms lab show ?thesis
    by (simp add: sign_and_push_def label_change_def broadcast_def truthy_def Let_def)
qed

text \<open>
  C10 fails on the code in a sweep: \<^verbatim>\<open>change_addr\<close> is bound in the payment branch
  only, so a sweep with a change label, once signed and confirmed, raises
  \<^verbatim>\<open>UnboundLocalError\<close> at line 217; no label is set and nothing is broadcast.
\<close>

theorem sweep_with_label_raises:
  "fst (direct_send W0 (A_sweep\<lparr>change_label := Some ''savings''\<rparr>) S0) = Raised UnboundLocalError
   \<and> calls (snd (direct_send W0 (A_sweep\<lparr>change_label := Some ''savings''\<rparr>) S0)) =
       [EvGetUtxosByMixdepth,
        EvMakeShuffledTx [(''t1'', 0)] [\<lparr>out_address = ''addrA'', out_value = 99850\<rparr>] 2 800000,
        EvSignTx]"
  by (simp add: run_defs W0_def A0_def A_sweep_def S0_def)

end
